theory Spec2Isabelle
  imports Complex_Main
begin

section \<open>JavaScript values and errors\<close>

text \<open>
  The webhook receiver works on JSON payloads and on request headers. A parsed JSON
  value is modelled by \<open>jsval\<close>; \<open>JUndefined\<close> is what reading a missing property
  gives. An object is an association list read with \<open>map_of\<close>.
\<close>

datatype jsval =
    JUndefined
  | JNull
  | JBool bool
  | JNum rat
  | JStr string
  | JArr "jsval list"
  | JObj "(string \<times> jsval) list"

text \<open>
  The two exceptions of the program: the \<open>TypeError\<close> the runtime raises when a property
  of \<open>undefined\<close> or \<open>null\<close> is read or a non-function is called, and the
  \<open>Error("Couldn't validate the request signature.")\<close> thrown by the verifier.
\<close>

datatype error = TypeError | SignatureMismatch

text \<open>JavaScript truthiness, as tested by \<open>if (v)\<close>, \<open>v && w\<close>, \<open>v || w\<close> and \<open>v ? a : b\<close>.\<close>

fun truthy :: "jsval \<Rightarrow> bool" where
  "truthy JUndefined = False"
| "truthy JNull = False"
| "truthy (JBool b) = b"
| "truthy (JNum n) = (n \<noteq> 0)"
| "truthy (JStr s) = (s \<noteq> [])"
| "truthy (JArr xs) = True"
| "truthy (JObj kvs) = True"

text \<open>
  Property read \<open>v.k\<close>. Reading a property of \<open>undefined\<close> or \<open>null\<close> raises a
  \<open>TypeError\<close>; an object gives the stored value or \<open>undefined\<close>; every other value
  gives \<open>undefined\<close> for the property names this program reads (\<open>id\<close>, \<open>type\<close>,
  \<open>text\<close>, \<open>body\<close>, \<open>message\<close>, \<open>from\<close>, \<open>sender\<close>, \<open>recipient\<close>, \<open>entry\<close>,
  \<open>changes\<close>, \<open>messaging\<close>, \<open>value\<close>, \<open>metadata\<close>, ...), none of which is a member of a
  built-in prototype.
\<close>

fun get :: "jsval \<Rightarrow> string \<Rightarrow> error + jsval" where
  "get JUndefined k = Inl TypeError"
| "get JNull k = Inl TypeError"
| "get (JObj kvs) k = (case map_of kvs k of Some v \<Rightarrow> Inr v | None \<Rightarrow> Inr JUndefined)"
| "get v k = Inr JUndefined"

section \<open>Signature verifier (app.js, verifyRequestSignature)\<close>

text \<open>
  The configuration module is not part of the sources; its three fields read by app.js
  are taken as a record. Each value comes from the environment: a string, or
  \<open>undefined\<close> (\<open>None\<close>) when unset.
\<close>

record config =
  appSecret :: "string option"
  igAppSecret :: "string option"
  verifyToken :: "string option"

text \<open>
  \<open>signature.split("=")\<close>: the pieces between the occurrences of the separator; the
  result always has at least one piece.
\<close>

fun split_on :: "char \<Rightarrow> string \<Rightarrow> string list" where
  "split_on c [] = [[]]"
| "split_on c (x # xs) =
     (if x = c then [] # split_on c xs
      else (case split_on c xs of
              [] \<Rightarrow> [[x]]
            | y # ys \<Rightarrow> (x # y) # ys))"

text \<open>\<open>elements[1]\<close>: the second piece, or \<open>undefined\<close> when there is none.\<close>

definition signatureHash :: "string \<Rightarrow> string option" where
  "signatureHash signature =
     (case split_on CHR ''='' signature of
        _ # e # _ \<Rightarrow> Some e
      | _ \<Rightarrow> None)"

text \<open>
  The keyed hash \<open>crypto.createHmac("sha256", key).update(buf).digest("hex")\<close> belongs to
  the runtime, not to the repository: it is the parameter \<open>hmac\<close> (key, then bytes, giving
  the hex digest). \<open>createHmac\<close> raises a \<open>TypeError\<close> when the key is \<open>undefined\<close>.

  The verifier returns the list of secrets under which a digest was computed and
  compared with the header's hash, in order, together with its outcome: \<open>Inr ()\<close> for a
  normal return, \<open>Inl\<close> for the exception thrown. The header is the value of
  \<open>req.headers["x-hub-signature-256"]\<close>: a string, or \<open>undefined\<close> (\<open>None\<close>).

  On a mismatch the code logs the first characters of both secrets before it throws;
  \<open>config.igAppSecret.substring\<close> raises a \<open>TypeError\<close> there when the second secret is
  \<open>undefined\<close>.
\<close>

definition verifyRequestSignature ::
  "config \<Rightarrow> (string \<Rightarrow> string \<Rightarrow> string) \<Rightarrow> string option \<Rightarrow> string \<Rightarrow> string list \<times> (error + unit)"
where
  "verifyRequestSignature cfg hmac header buf =
     (case header of
        None \<Rightarrow> ([], Inr ())
      | Some signature \<Rightarrow>
          if signature = [] then ([], Inr ())
          else
            (case appSecret cfg of
               None \<Rightarrow> ([], Inl TypeError)
             | Some secret \<Rightarrow>
                 if signatureHash signature = Some (hmac secret buf) then ([secret], Inr ())
                 else
                   (case igAppSecret cfg of
                      None \<Rightarrow> ([secret], Inl TypeError)
                    | Some igSecret \<Rightarrow>
                        if igSecret \<noteq> [] \<and> igSecret \<noteq> secret then
                          (if signatureHash signature = Some (hmac igSecret buf)
                           then ([secret, igSecret], Inr ())
                           else ([secret, igSecret], Inl SignatureMismatch))
                        else ([secret], Inl SignatureMismatch))))"

section \<open>Verification handshake (app.js, GET /webhook)\<close>





text \<open>
  A response is the status and the value handed to \<open>res.send\<close>; \<open>res.send(undefined)\<close>
  sends no body (\<open>None\<close>). \<open>res.sendStatus(403)\<close> sends the status with its standard
  reason phrase as body.
\<close>

record 'a response =
  status :: nat
  body :: "'a option"


section \<open>Event normalizer (services/message.js, class Message)\<close>

text \<open>
  The fields of a constructed \<open>Message\<close>. A field the constructor never assigns
  (\<open>text\<close> outside the two text branches) reads as \<open>undefined\<close>.
\<close>

record message =
  msg_id :: jsval
  msg_type :: jsval
  msg_text :: jsval
  senderPhoneNumber :: jsval

text \<open>Sequencing of reads that may raise: the first exception ends the computation.\<close>

definition and_then :: "error + 'a \<Rightarrow> ('a \<Rightarrow> error + 'b) \<Rightarrow> error + 'b" where
  "and_then m f = (case m of Inl e \<Rightarrow> Inl e | Inr v \<Rightarrow> f v)"

text \<open>
  The constructor, statement by statement. \<open>a || b\<close> is \<open>a\<close> when \<open>a\<close> is truthy and
  \<open>b\<close> otherwise; \<open>a && b\<close> is \<open>a\<close> when \<open>a\<close> is falsy and \<open>b\<close> otherwise.
\<close>

definition Message :: "jsval \<Rightarrow> error + message" where
  "Message rawMessage =
     and_then (get rawMessage ''id'') (\<lambda>mid.
     and_then (get rawMessage ''type'') (\<lambda>ty.
     and_then
       (if ty = JStr ''interactive'' then
          and_then (get rawMessage ''interactive'') (\<lambda>i.
          and_then (get i ''button_reply'') (\<lambda>b.
          and_then (get b ''id'') (\<lambda>rid.
          Inr (rid, JUndefined))))
        else
          and_then (get rawMessage ''text'') (\<lambda>t.
          if truthy t then
            and_then (get t ''body'') (\<lambda>b.
            Inr (JStr ''text'', if truthy b then b else t))
          else
            and_then (get rawMessage ''message'') (\<lambda>m.
            and_then (if truthy m then get m ''text'' else Inr m) (\<lambda>c.
            if truthy c then
              and_then (get m ''text'') (\<lambda>mt.
              Inr (JStr ''text'', mt))
            else Inr (JStr ''unknown'', JUndefined)))))
       (\<lambda>(ty', tx).
     and_then (get rawMessage ''from'') (\<lambda>frm.
     and_then
       (if truthy frm then Inr frm
        else
          and_then (get rawMessage ''sender'') (\<lambda>s.
          if truthy s then get s ''id'' else Inr JUndefined))
       (\<lambda>sender.
     Inr \<lparr>msg_id = mid, msg_type = ty', msg_text = tx, senderPhoneNumber = sender\<rparr>)))))"

section \<open>Dispatcher (app.js, POST /webhook)\<close>

text \<open>
  Modelled from the spec: the four handlers of \<open>services/conversation.js\<close>, which is not
  part of the sources. They are asynchronous collaborators whose failures never reach
  the inbound request, so an invocation is recorded with its two arguments and returns.
\<close>

datatype call =
    HandleStatus jsval jsval
  | HandleMessage jsval jsval
  | HandleInstagramMessage jsval jsval
  | HandleInstagramStatus jsval jsval

text \<open>
  What a piece of the route has done: the handler invocations made, in order, and the
  exception that ended it, if any.
\<close>

type_synonym outcome = "call list \<times> error option"

definition nothing :: outcome where
  "nothing = ([], None)"

definition invoke :: "call \<Rightarrow> outcome" where
  "invoke c = ([c], None)"

definition reading :: "error + jsval \<Rightarrow> (jsval \<Rightarrow> outcome) \<Rightarrow> outcome" where
  "reading m f = (case m of Inl e \<Rightarrow> ([], Some e) | Inr v \<Rightarrow> f v)"

definition seq :: "outcome \<Rightarrow> outcome \<Rightarrow> outcome" where
  "seq a b = (case a of (cs, Some e) \<Rightarrow> (cs, Some e) | (cs, None) \<Rightarrow> (cs @ fst b, snd b))"

text \<open>
  \<open>xs.forEach(f)\<close>: the callback runs on each element in order and an exception ends the
  loop. On a value that is not an array \<open>forEach\<close> is not a function, and the call raises
  a \<open>TypeError\<close>.
\<close>

fun forEach_list :: "(jsval \<Rightarrow> outcome) \<Rightarrow> jsval list \<Rightarrow> outcome" where
  "forEach_list f [] = nothing"
| "forEach_list f (x # xs) = seq (f x) (forEach_list f xs)"

definition forEach :: "jsval \<Rightarrow> (jsval \<Rightarrow> outcome) \<Rightarrow> outcome" where
  "forEach v f = (case v of JArr xs \<Rightarrow> forEach_list f xs | _ \<Rightarrow> ([], Some TypeError))"

subsection \<open>Kind A: whatsapp_business_account\<close>

definition whatsapp_change :: "jsval \<Rightarrow> outcome" where
  "whatsapp_change change =
     reading (get change ''value'') (\<lambda>val.
     if truthy val then
       reading (get val ''metadata'') (\<lambda>metadata.
       reading (get metadata ''phone_number_id'') (\<lambda>senderPhoneNumberId.
       seq
         (reading (get val ''statuses'') (\<lambda>statuses.
          if truthy statuses
          then forEach statuses (\<lambda>st. invoke (HandleStatus senderPhoneNumberId st))
          else nothing))
         (reading (get val ''messages'') (\<lambda>messages.
          if truthy messages
          then forEach messages (\<lambda>rawMessage. invoke (HandleMessage senderPhoneNumberId rawMessage))
          else nothing))))
     else nothing)"

definition whatsapp_entry :: "jsval \<Rightarrow> outcome" where
  "whatsapp_entry entry =
     reading (get entry ''changes'') (\<lambda>changes. forEach changes whatsapp_change)"

subsection \<open>Kind B: instagram\<close>

text \<open>
  The page or business identifier, written twice in the source with the same text:
  \<open>entry.id && entry.id !== "0" ? entry.id : messagingEvent.recipient.id\<close>.
\<close>

definition businessId :: "jsval \<Rightarrow> jsval \<Rightarrow> error + jsval" where
  "businessId entry messagingEvent =
     and_then (get entry ''id'') (\<lambda>eid.
     if truthy eid \<and> eid \<noteq> JStr ''0'' then Inr eid
     else and_then (get messagingEvent ''recipient'') (\<lambda>recipient. get recipient ''id''))"

definition instagram_messaging :: "jsval \<Rightarrow> jsval \<Rightarrow> outcome" where
  "instagram_messaging entry messagingEvent =
     reading (businessId entry messagingEvent) (\<lambda>bid.
     reading (get messagingEvent ''message'') (\<lambda>msg.
     if truthy msg then invoke (HandleInstagramMessage bid messagingEvent)
     else
       reading (get messagingEvent ''delivery'') (\<lambda>delivery.
       if truthy delivery then invoke (HandleInstagramStatus bid messagingEvent)
       else
         reading (get messagingEvent ''read'') (\<lambda>rd.
         if truthy rd then invoke (HandleInstagramStatus bid messagingEvent)
         else nothing))))"

text \<open>
  A change whose field is \<open>messages\<close> is adapted to the shape of a messaging event, an
  object with the four properties lifted from the change's value.
\<close>

definition instagram_change :: "jsval \<Rightarrow> jsval \<Rightarrow> outcome" where
  "instagram_change entry change =
     reading (get change ''field'') (\<lambda>field.
     if field = JStr ''messages'' then
       reading (get change ''value'') (\<lambda>val.
       reading (get val ''sender'') (\<lambda>sender.
       reading (get val ''recipient'') (\<lambda>recipient.
       reading (get val ''timestamp'') (\<lambda>timestamp.
       reading (get val ''message'') (\<lambda>msg.
       reading
         (businessId entry
            (JObj [(''sender'', sender), (''recipient'', recipient),
                   (''timestamp'', timestamp), (''message'', msg)]))
         (\<lambda>bid.
       invoke (HandleInstagramMessage bid
         (JObj [(''sender'', sender), (''recipient'', recipient),
                (''timestamp'', timestamp), (''message'', msg)]))))))))
     else nothing)"

definition instagram_entry :: "jsval \<Rightarrow> outcome" where
  "instagram_entry entry =
     reading (get entry ''messaging'') (\<lambda>messaging.
     if truthy messaging then forEach messaging (instagram_messaging entry)
     else
       reading (get entry ''changes'') (\<lambda>changes.
       if truthy changes then forEach changes (instagram_change entry)
       else nothing))"

subsection \<open>The route\<close>

definition dispatch :: "jsval \<Rightarrow> outcome" where
  "dispatch reqBody =
     reading (get reqBody ''object'') (\<lambda>obj.
     if obj = JStr ''whatsapp_business_account'' then
       reading (get reqBody ''entry'') (\<lambda>entry. forEach entry whatsapp_entry)
     else if obj = JStr ''instagram'' then
       reading (get reqBody ''entry'') (\<lambda>entry. forEach entry instagram_entry)
     else nothing)"

text \<open>
  The route walks the payload and then sends \<open>res.status(200).send("EVENT_RECEIVED")\<close>.
  An exception raised on the way leaves the route before that statement: the result is
  then the exception, and no acknowledgement has been sent by the route.
\<close>

definition post_webhook :: "jsval \<Rightarrow> call list \<times> (error + string response)" where
  "post_webhook reqBody =
     (case dispatch reqBody of
        (cs, Some e) \<Rightarrow> (cs, Inl e)
      | (cs, None) \<Rightarrow> (cs, Inr \<lparr>status = 200, body = Some ''EVENT_RECEIVED''\<rparr>))"

text \<open>
  The JSON body parser is registered with \<open>verify: verifyRequestSignature\<close>: it calls the
  verifier on the raw bytes before it parses them, and an exception of the verifier ends
  the request there, so the route never runs. The parser itself is the parameter
  \<open>parse\<close> (\<open>None\<close> when the bytes are not JSON). This is the path of a POST
  /webhook request that carries a JSON body.
\<close>

datatype post_result =
    Rejected error
  | Unparsed
  | Routed "call list" "error + string response"

definition post_request ::
  "config \<Rightarrow> (string \<Rightarrow> string \<Rightarrow> string) \<Rightarrow> (string \<Rightarrow> jsval option) \<Rightarrow>
   string option \<Rightarrow> string \<Rightarrow> post_result"
where
  "post_request cfg hmac parse header buf =
     (case snd (verifyRequestSignature cfg hmac header buf) of
        Inl e \<Rightarrow> Rejected e
      | Inr _ \<Rightarrow>
          (case parse buf of
             None \<Rightarrow> Unparsed
           | Some reqBody \<Rightarrow> (case post_webhook reqBody of (cs, r) \<Rightarrow> Routed cs r)))"

section \<open>Single-secret verification, as the specification words it\<close>

text \<open>
  The reference point of the refinement property: verification under one secret. An
  absent header is not fatal; a header that is present is accepted when the digest it
  carries is the keyed hash of the raw body under that secret. A header with an empty
  value carries nothing and counts as absent.
\<close>

definition single_secret_accepts ::
  "(string \<Rightarrow> string \<Rightarrow> string) \<Rightarrow> string \<Rightarrow> string option \<Rightarrow> string \<Rightarrow> bool"
where
  "single_secret_accepts hmac secret header buf =
     (case header of
        None \<Rightarrow> True
      | Some signature \<Rightarrow> signature = [] \<or> signatureHash signature = Some (hmac secret buf))"

section \<open>Properties of the signature verifier\<close>

lemma split_on_nonempty: "split_on c s \<noteq> []"
  by (induction s) (auto split: list.splits)

lemma split_on_prefix:
  "c \<notin> set p \<Longrightarrow> split_on c (p @ c # h) = p # split_on c h"
  by (induction p) (auto split: list.splits)

lemma signatureHash_prefix:
  "CHR ''='' \<notin> set p \<Longrightarrow> signatureHash (p @ ''='' @ h) = Some (hd (split_on CHR ''='' h))"
  using split_on_nonempty [of "CHR ''=''" h]
  by (cases "split_on CHR ''='' h") (simp_all add: signatureHash_def split_on_prefix)

lemma split_on_no_sep: "c \<notin> set h \<Longrightarrow> split_on c h = [h]"
  by (induction h) auto

text \<open>
  \<^bold>\<open>C1.\<close> With a primary and a secondary secret configured and a signature header
  present, the verifier returns normally exactly when the digest carried in the header
  (the piece after the first \<open>=\<close>) is the keyed hash of the raw body under the primary
  or under the secondary secret. When it is neither, the verifier throws the signature
  error, and the request is rejected before the route runs.
\<close>

theorem two_secrets_accept_either:
  assumes "appSecret cfg = Some secret" and "igAppSecret cfg = Some igSecret"
    and "igSecret \<noteq> []" and "signature \<noteq> []"
  shows "snd (verifyRequestSignature cfg hmac (Some signature) buf) =
           (if signatureHash signature = Some (hmac secret buf)
               \<or> signatureHash signature = Some (hmac igSecret buf)
            then Inr () else Inl SignatureMismatch)
         \<and> (signatureHash signature \<noteq> Some (hmac secret buf)
              \<and> signatureHash signature \<noteq> Some (hmac igSecret buf)
            \<longrightarrow> post_request cfg hmac parse (Some signature) buf = Rejected SignatureMismatch)"
  using assms by (auto simp: verifyRequestSignature_def post_request_def)

theorem two_secrets_accept_either_witness:
  "snd (verifyRequestSignature \<lparr>appSecret = Some ''k1'', igAppSecret = Some ''k2'', verifyToken = None\<rparr>
          (\<lambda>k b. k @ b) (Some ''sha256=k2ab'') ''ab'') = Inr ()
   \<and> snd (verifyRequestSignature \<lparr>appSecret = Some ''k1'', igAppSecret = Some ''k2'', verifyToken = None\<rparr>
          (\<lambda>k b. k @ b) (Some ''sha256=k3ab'') ''ab'') = Inl SignatureMismatch
   \<and> post_request \<lparr>appSecret = Some ''k1'', igAppSecret = Some ''k2'', verifyToken = None\<rparr>
          (\<lambda>k b. k @ b) (\<lambda>b. Some JNull) (Some ''sha256=k3ab'') ''ab'' = Rejected SignatureMismatch"
  using two_secrets_accept_either [of "\<lparr>appSecret = Some ''k1'', igAppSecret = Some ''k2'', verifyToken = None\<rparr>"
      "''k1''" "''k2''" "''sha256=k2ab''" "\<lambda>k b. k @ b" "''ab''" "\<lambda>b. Some JNull"]
    two_secrets_accept_either [of "\<lparr>appSecret = Some ''k1'', igAppSecret = Some ''k2'', verifyToken = None\<rparr>"
      "''k1''" "''k2''" "''sha256=k3ab''" "\<lambda>k b. k @ b" "''ab''" "\<lambda>b. Some JNull"]
  by (simp add: signatureHash_def)

text \<open>
  \<^bold>\<open>C7.\<close> When the signature header is absent (or empty) the verifier returns
  normally and no digest is computed or compared, for every configuration, body and
  keyed hash; the request then goes on to parsing and to the route, unverified.
\<close>

theorem missing_header_is_not_fatal:
  "verifyRequestSignature cfg hmac None buf = ([], Inr ())
   \<and> verifyRequestSignature cfg hmac (Some []) buf = ([], Inr ())
   \<and> post_request cfg hmac parse None buf =
       (case parse buf of
          None \<Rightarrow> Unparsed
        | Some reqBody \<Rightarrow> Routed (fst (post_webhook reqBody)) (snd (post_webhook reqBody)))"
  by (simp add: verifyRequestSignature_def post_request_def split: option.splits prod.splits)

text \<open>
  \<^bold>\<open>C8.\<close> When the secondary secret is absent or equal to the primary one, the
  verifier computes and compares at most one digest, the one under the primary secret,
  and it accepts a body and header exactly when single-secret verification under the
  primary secret does.
\<close>

theorem equal_or_absent_secondary_is_single_secret:
  assumes "appSecret cfg = Some secret"
    and "igAppSecret cfg = None \<or> igAppSecret cfg = Some [] \<or> igAppSecret cfg = Some secret"
  shows "set (fst (verifyRequestSignature cfg hmac header buf)) \<subseteq> {secret}
         \<and> length (fst (verifyRequestSignature cfg hmac header buf)) \<le> 1
         \<and> (snd (verifyRequestSignature cfg hmac header buf) = Inr ()
              \<longleftrightarrow> single_secret_accepts hmac secret header buf)"
  using assms
  by (auto simp: verifyRequestSignature_def single_secret_accepts_def split: option.splits)

theorem equal_or_absent_secondary_is_single_secret_witness:
  "fst (verifyRequestSignature \<lparr>appSecret = Some ''k1'', igAppSecret = Some ''k1'', verifyToken = None\<rparr>
          (\<lambda>k b. k @ b) (Some ''sha256=k2ab'') ''ab'') = [''k1'']
   \<and> snd (verifyRequestSignature \<lparr>appSecret = Some ''k1'', igAppSecret = Some ''k1'', verifyToken = None\<rparr>
          (\<lambda>k b. k @ b) (Some ''sha256=k2ab'') ''ab'') \<noteq> Inr ()
   \<and> \<not> single_secret_accepts (\<lambda>k b. k @ b) ''k1'' (Some ''sha256=k2ab'') ''ab''
   \<and> snd (verifyRequestSignature \<lparr>appSecret = Some ''k1'', igAppSecret = None, verifyToken = None\<rparr>
          (\<lambda>k b. k @ b) (Some ''sha256=k1ab'') ''ab'') = Inr ()
   \<and> single_secret_accepts (\<lambda>k b. k @ b) ''k1'' (Some ''sha256=k1ab'') ''ab''"
  using equal_or_absent_secondary_is_single_secret [of
      "\<lparr>appSecret = Some ''k1'', igAppSecret = Some ''k1'', verifyToken = None\<rparr>"
      "''k1''" "\<lambda>k b. k @ b" "Some ''sha256=k2ab''" "''ab''"]
    equal_or_absent_secondary_is_single_secret [of
      "\<lparr>appSecret = Some ''k1'', igAppSecret = None, verifyToken = None\<rparr>"
      "''k1''" "\<lambda>k b. k @ b" "Some ''sha256=k1ab''" "''ab''"]
  by (simp add: verifyRequestSignature_def signatureHash_def single_secret_accepts_def)

text \<open>
  \<^bold>\<open>C9.\<close> The algorithm part of the header is never looked at: for a header
  \<open>prefix=hex\<close> the whole result of the verifier is the one for \<open>sha256=hex\<close>,
  whatever the prefix is, and a header whose hex part is the right digest under the
  primary secret is accepted under any prefix.
\<close>

theorem algorithm_prefix_is_ignored:
  assumes "CHR ''='' \<notin> set prefix"
  shows "verifyRequestSignature cfg hmac (Some (prefix @ ''='' @ hex)) buf
           = verifyRequestSignature cfg hmac (Some (''sha256='' @ hex)) buf
         \<and> (appSecret cfg = Some secret \<and> CHR ''='' \<notin> set (hmac secret buf)
            \<longrightarrow> verifyRequestSignature cfg hmac (Some (prefix @ ''='' @ hmac secret buf)) buf
                  = ([secret], Inr ()))"
proof -
  have p: "signatureHash (prefix @ ''='' @ h) = Some (hd (split_on CHR ''='' h))" for h
    using assms by (rule signatureHash_prefix)
  have s: "signatureHash (''sha256='' @ h) = Some (hd (split_on CHR ''='' h))" for h
    using signatureHash_prefix [of "''sha256''" h] by simp
  have eq: "verifyRequestSignature cfg hmac (Some (prefix @ ''='' @ hex)) buf
           = verifyRequestSignature cfg hmac (Some (''sha256='' @ hex)) buf"
    using p [of hex] s [of hex]
    by (simp add: verifyRequestSignature_def split: option.splits)
  have acc: "verifyRequestSignature cfg hmac (Some (prefix @ ''='' @ hmac secret buf)) buf
                  = ([secret], Inr ())"
    if "appSecret cfg = Some secret" and "CHR ''='' \<notin> set (hmac secret buf)"
    using that p [of "hmac secret buf"]
    by (simp add: verifyRequestSignature_def split_on_no_sep)
  from eq acc show ?thesis by blast
qed

theorem algorithm_prefix_is_ignored_witness:
  "verifyRequestSignature \<lparr>appSecret = Some ''k1'', igAppSecret = Some ''k2'', verifyToken = None\<rparr>
      (\<lambda>k b. k @ b) (Some ''md5=k1ab'') ''ab'' = ([''k1''], Inr ())
   \<and> verifyRequestSignature \<lparr>appSecret = Some ''k1'', igAppSecret = Some ''k2'', verifyToken = None\<rparr>
      (\<lambda>k b. k @ b) (Some ''md5=k1ab'') ''ab''
     = verifyRequestSignature \<lparr>appSecret = Some ''k1'', igAppSecret = Some ''k2'', verifyToken = None\<rparr>
      (\<lambda>k b. k @ b) (Some ''sha256=k1ab'') ''ab''"
  using algorithm_prefix_is_ignored [of "''md5''"
      "\<lparr>appSecret = Some ''k1'', igAppSecret = Some ''k2'', verifyToken = None\<rparr>"
      "\<lambda>k b. k @ b" "''k1ab''" "''ab''" "''k1''"]
  by (simp add: verifyRequestSignature_def signatureHash_def)

section \<open>Properties of the verification handshake\<close>




section \<open>Properties of the event normalizer\<close>

lemma get_total: "v \<noteq> JUndefined \<Longrightarrow> v \<noteq> JNull \<Longrightarrow> \<exists>y. get v k = Inr y"
  by (cases v) (auto split: option.splits)

lemma get_Inr_not_nullish: "get v k = Inr x \<Longrightarrow> v \<noteq> JUndefined \<and> v \<noteq> JNull"
  by (cases v) auto

lemma truthy_not_nullish: "truthy v \<Longrightarrow> v \<noteq> JUndefined \<and> v \<noteq> JNull"
  by (cases v) auto

lemma Message_reads:
  assumes "get rawMessage ''type'' = Inr ty"
  obtains mid frm sd where "get rawMessage ''id'' = Inr mid"
    and "get rawMessage ''from'' = Inr frm" and "get rawMessage ''sender'' = Inr sd"
  using get_Inr_not_nullish [OF assms] get_total by metis

lemma get_truthy: "truthy v \<Longrightarrow> \<exists>y. get v k = Inr y"
  using truthy_not_nullish get_total by blast

text \<open>
  A direct text field whose body is the empty string: the normalized text is not the
  body content but the text field itself, because \<open>rawMessage.text.body || rawMessage.text\<close>
  falls back to its right operand on a falsy body. This is the input at which claim C3,
  as worded (text equal to the body content), does not hold.
\<close>

theorem direct_text_empty_body_counterexample:
  "Message (JObj [(''id'', JStr ''wamid.1''), (''from'', JStr ''5491100000000''),
                  (''type'', JStr ''text''), (''text'', JObj [(''body'', JStr '''')])])
     = Inr \<lparr>msg_id = JStr ''wamid.1'', msg_type = JStr ''text'',
            msg_text = JObj [(''body'', JStr '''')], senderPhoneNumber = JStr ''5491100000000''\<rparr>
   \<and> get (JObj [(''body'', JStr '''')]) ''body'' = Inr (JStr '''')
   \<and> JObj [(''body'', JStr '''')] \<noteq> JStr ''''"
  by (simp add: Message_def and_then_def)

text \<open>
  \<^bold>\<open>C3\<close>, as the code has it. For every raw event object the type is resolved in
  first-match order:
  \<^item> an event whose \<open>type\<close> is \<open>interactive\<close> and which carries
    \<open>interactive.button_reply\<close> gets the button's reply identifier itself as type;
  \<^item> otherwise (\<open>type\<close> is not \<open>interactive\<close>) an event with a truthy \<open>text\<close> field
    gets type \<open>text\<close>, and its text is the field's \<open>body\<close> when that is truthy and the
    \<open>text\<close> field itself when it is not;
  \<^item> otherwise an event with a truthy \<open>message\<close> whose \<open>text\<close> is truthy gets type
    \<open>text\<close> and that nested text;
  \<^item> otherwise the type is \<open>unknown\<close> and no text is set.
  In each of these cases the constructor returns. An event whose \<open>type\<close> is
  \<open>interactive\<close> but which has no \<open>interactive.button_reply\<close> is not covered here.
\<close>

theorem type_resolution_first_match:
  assumes "get rawMessage ''type'' = Inr ty"
  shows "(ty = JStr ''interactive'' \<and> get rawMessage ''interactive'' = Inr i
            \<and> get i ''button_reply'' = Inr b \<and> get b ''id'' = Inr rid
          \<longrightarrow> (\<exists>m. Message rawMessage = Inr m \<and> msg_type m = rid \<and> msg_text m = JUndefined))
       \<and> (ty \<noteq> JStr ''interactive'' \<and> get rawMessage ''text'' = Inr t \<and> truthy t
            \<and> get t ''body'' = Inr bd
          \<longrightarrow> (\<exists>m. Message rawMessage = Inr m \<and> msg_type m = JStr ''text''
                 \<and> msg_text m = (if truthy bd then bd else t)))
       \<and> (ty \<noteq> JStr ''interactive'' \<and> get rawMessage ''text'' = Inr t \<and> \<not> truthy t
            \<and> get rawMessage ''message'' = Inr msg \<and> truthy msg
            \<and> get msg ''text'' = Inr mt \<and> truthy mt
          \<longrightarrow> (\<exists>m. Message rawMessage = Inr m \<and> msg_type m = JStr ''text'' \<and> msg_text m = mt))
       \<and> (ty \<noteq> JStr ''interactive'' \<and> get rawMessage ''text'' = Inr t \<and> \<not> truthy t
            \<and> get rawMessage ''message'' = Inr msg
            \<and> (truthy msg \<longrightarrow> get msg ''text'' = Inr mt \<and> \<not> truthy mt)
          \<longrightarrow> (\<exists>m. Message rawMessage = Inr m \<and> msg_type m = JStr ''unknown''
                 \<and> msg_text m = JUndefined))"
proof -
  from assms obtain mid frm sd where reads: "get rawMessage ''id'' = Inr mid"
    "get rawMessage ''from'' = Inr frm" "get rawMessage ''sender'' = Inr sd"
    by (rule Message_reads)
  have sd: "truthy sd \<Longrightarrow> \<exists>v. get sd ''id'' = Inr v"
    by (rule get_truthy)
  then obtain sid where sender: "truthy sd \<longrightarrow> get sd ''id'' = Inr sid"
    by blast
  have c1: "\<exists>m. Message rawMessage = Inr m \<and> msg_type m = rid \<and> msg_text m = JUndefined"
    if "ty = JStr ''interactive''" "get rawMessage ''interactive'' = Inr i"
      "get i ''button_reply'' = Inr b" "get b ''id'' = Inr rid"
    using that assms reads sender
    by (auto simp: Message_def and_then_def)
  have c2: "\<exists>m. Message rawMessage = Inr m \<and> msg_type m = JStr ''text''
                 \<and> msg_text m = (if truthy bd then bd else t)"
    if "ty \<noteq> JStr ''interactive''" "get rawMessage ''text'' = Inr t" "truthy t"
      "get t ''body'' = Inr bd"
    using that assms reads sender
    by (auto simp: Message_def and_then_def)
  have c3: "\<exists>m. Message rawMessage = Inr m \<and> msg_type m = JStr ''text'' \<and> msg_text m = mt"
    if "ty \<noteq> JStr ''interactive''" "get rawMessage ''text'' = Inr t" "\<not> truthy t"
      "get rawMessage ''message'' = Inr msg" "truthy msg" "get msg ''text'' = Inr mt" "truthy mt"
    using that assms reads sender
    by (auto simp: Message_def and_then_def)
  have c4: "\<exists>m. Message rawMessage = Inr m \<and> msg_type m = JStr ''unknown''
                 \<and> msg_text m = JUndefined"
    if "ty \<noteq> JStr ''interactive''" "get rawMessage ''text'' = Inr t" "\<not> truthy t"
      "get rawMessage ''message'' = Inr msg" "truthy msg \<longrightarrow> get msg ''text'' = Inr mt \<and> \<not> truthy mt"
    using that assms reads sender
    by (auto simp: Message_def and_then_def)
  from c1 c2 c3 c4 show ?thesis by blast
qed

theorem type_resolution_first_match_witness:
  "(\<exists>m. Message (JObj [(''type'', JStr ''interactive''),
        (''interactive'', JObj [(''button_reply'', JObj [(''id'', JStr ''BUY_NOW'')])])]) = Inr m
      \<and> msg_type m = JStr ''BUY_NOW'' \<and> msg_text m = JUndefined)
   \<and> (\<exists>m. Message (JObj [(''text'', JObj [(''body'', JStr ''hi'')])]) = Inr m
      \<and> msg_type m = JStr ''text'' \<and> msg_text m = JStr ''hi'')
   \<and> (\<exists>m. Message (JObj [(''message'', JObj [(''text'', JStr ''hola'')])]) = Inr m
      \<and> msg_type m = JStr ''text'' \<and> msg_text m = JStr ''hola'')
   \<and> (\<exists>m. Message (JObj [(''image'', JObj [])]) = Inr m
      \<and> msg_type m = JStr ''unknown'' \<and> msg_text m = JUndefined)"
  using type_resolution_first_match [of
      "JObj [(''type'', JStr ''interactive''),
        (''interactive'', JObj [(''button_reply'', JObj [(''id'', JStr ''BUY_NOW'')])])]"
      "JStr ''interactive''" "JObj [(''button_reply'', JObj [(''id'', JStr ''BUY_NOW'')])]"
      "JObj [(''id'', JStr ''BUY_NOW'')]" "JStr ''BUY_NOW''"]
    type_resolution_first_match [of "JObj [(''text'', JObj [(''body'', JStr ''hi'')])]" JUndefined
      _ _ _ "JObj [(''body'', JStr ''hi'')]" "JStr ''hi''"]
    type_resolution_first_match [of "JObj [(''message'', JObj [(''text'', JStr ''hola'')])]" JUndefined
      _ _ _ JUndefined _ "JObj [(''text'', JStr ''hola'')]" "JStr ''hola''"]
    type_resolution_first_match [of "JObj [(''image'', JObj [])]" JUndefined
      _ _ _ JUndefined _ JUndefined]
  by simp

text \<open>
  \<^bold>\<open>C6.\<close> The constructor does not return on every raw event object. An interactive
  list reply, a message the provider really sends, has \<open>type\<close> \<open>interactive\<close> and no
  \<open>interactive.button_reply\<close>; the unguarded read \<open>rawMessage.interactive.button_reply.id\<close>
  raises a \<open>TypeError\<close>, although the neighbouring branches guard their nested reads
  (\<open>rawMessage.message && rawMessage.message.text\<close>, \<open>rawMessage.sender ? ... : undefined\<close>).
\<close>

theorem interactive_list_reply_raises:
  "Message (JObj [(''from'', JStr ''5491100000000''), (''id'', JStr ''wamid.2''),
                  (''type'', JStr ''interactive''),
                  (''interactive'', JObj [(''type'', JStr ''list_reply''),
                     (''list_reply'', JObj [(''id'', JStr ''row_1''), (''title'', JStr ''Row 1'')])])])
     = Inl TypeError"
  by (simp add: Message_def and_then_def)

text \<open>
  Where the constructor returns, the sender is resolved as C6 says: the \<open>from\<close> field
  when it is truthy, otherwise the \<open>id\<close> of a truthy \<open>sender\<close>, otherwise \<open>undefined\<close>.
  It returns on every event object whose \<open>type\<close> is not \<open>interactive\<close>.
\<close>

lemma Message_sender_resolution:
  assumes "Message rawMessage = Inr m"
    and "get rawMessage ''from'' = Inr frm" and "get rawMessage ''sender'' = Inr sd"
  shows "Inr (senderPhoneNumber m) =
           (if truthy frm then Inr frm else if truthy sd then get sd ''id'' else Inr JUndefined)"
  using assms
  by (auto simp: Message_def and_then_def split: sum.splits if_splits prod.splits)

lemma Message_returns_unless_interactive:
  assumes "get rawMessage ''type'' = Inr ty" and "ty \<noteq> JStr ''interactive''"
  shows "\<exists>m. Message rawMessage = Inr m"
proof -
  from assms(1) obtain mid frm sd where reads: "get rawMessage ''id'' = Inr mid"
    "get rawMessage ''from'' = Inr frm" "get rawMessage ''sender'' = Inr sd"
    by (rule Message_reads)
  obtain t msg where more: "get rawMessage ''text'' = Inr t" "get rawMessage ''message'' = Inr msg"
    using get_Inr_not_nullish [OF assms(1)] get_total by metis
  have "truthy sd \<Longrightarrow> \<exists>v. get sd ''id'' = Inr v" "truthy t \<Longrightarrow> \<exists>v. get t ''body'' = Inr v"
    "truthy msg \<Longrightarrow> \<exists>v. get msg ''text'' = Inr v"
    by (simp_all add: get_truthy)
  with assms reads more show ?thesis
    by (auto simp: Message_def and_then_def)
qed

section \<open>Properties of the dispatcher\<close>

lemma businessId_cong:
  "get entry ''id'' = get entry' ''id'' \<Longrightarrow> businessId entry ev = businessId entry' ev"
  by (simp add: businessId_def)

lemma instagram_messaging_cong:
  "get entry ''id'' = get entry' ''id'' \<Longrightarrow> instagram_messaging entry ev = instagram_messaging entry' ev"
  by (simp add: instagram_messaging_def businessId_cong [of entry entry'])

lemma instagram_messaging_calls:
  "c \<in> set (fst (instagram_messaging entry ev)) \<Longrightarrow>
   \<exists>bid. businessId entry ev = Inr bid
     \<and> (c = HandleInstagramMessage bid ev \<or> c = HandleInstagramStatus bid ev)"
  by (auto simp: instagram_messaging_def reading_def invoke_def nothing_def
      split: sum.splits if_splits)

lemma instagram_change_calls:
  "c \<in> set (fst (instagram_change entry change)) \<Longrightarrow>
   \<exists>bid ev. businessId entry ev = Inr bid \<and> c = HandleInstagramMessage bid ev"
  by (auto simp: instagram_change_def reading_def invoke_def nothing_def
      split: sum.splits if_splits)

lemma forEach_list_calls:
  "c \<in> set (fst (forEach_list f xs)) \<Longrightarrow> \<exists>x \<in> set xs. c \<in> set (fst (f x))"
  by (induction xs) (auto simp: nothing_def seq_def split: prod.splits option.splits)

lemma forEach_list_cong:
  "(\<And>x. x \<in> set xs \<Longrightarrow> f x = g x) \<Longrightarrow> forEach_list f xs = forEach_list g xs"
  by (induction xs) auto

text \<open>
  \<^bold>\<open>C4.\<close> For a kind-B event the business identifier is the entry's \<open>id\<close> whenever
  that is present (truthy) and not the string \<open>"0"\<close>, and the event's \<open>recipient.id\<close>
  otherwise; every handler invocation made for a messaging event or for an adapted
  change passes exactly this identifier together with the event it was resolved from.
\<close>

theorem business_id_prefers_entry_id:
  assumes "get entry ''id'' = Inr eid"
  shows "(truthy eid \<and> eid \<noteq> JStr ''0'' \<longrightarrow> businessId entry ev = Inr eid)
       \<and> (\<not> (truthy eid \<and> eid \<noteq> JStr ''0'') \<longrightarrow>
            businessId entry ev = and_then (get ev ''recipient'') (\<lambda>recipient. get recipient ''id''))
       \<and> (\<forall>c \<in> set (fst (instagram_messaging entry ev)).
            \<exists>bid. businessId entry ev = Inr bid
              \<and> (c = HandleInstagramMessage bid ev \<or> c = HandleInstagramStatus bid ev))
       \<and> (\<forall>c \<in> set (fst (instagram_change entry change)).
            \<exists>bid adapted. businessId entry adapted = Inr bid \<and> c = HandleInstagramMessage bid adapted)"
  using assms instagram_messaging_calls [of _ entry ev] instagram_change_calls [of _ entry change]
  by (auto simp: businessId_def and_then_def)

theorem business_id_prefers_entry_id_witness:
  "businessId (JObj [(''id'', JStr ''0'')]) (JObj [(''recipient'', JObj [(''id'', JStr ''12345'')])])
     = Inr (JStr ''12345'')
   \<and> (\<forall>ev. businessId (JObj [(''id'', JStr ''98765'')]) ev = Inr (JStr ''98765''))
   \<and> fst (instagram_messaging (JObj [(''id'', JStr ''0'')])
        (JObj [(''recipient'', JObj [(''id'', JStr ''12345'')]), (''message'', JObj [(''text'', JStr ''hi'')])]))
     = [HandleInstagramMessage (JStr ''12345'')
        (JObj [(''recipient'', JObj [(''id'', JStr ''12345'')]), (''message'', JObj [(''text'', JStr ''hi'')])])]"
  using business_id_prefers_entry_id [of "JObj [(''id'', JStr ''0'')]" "JStr ''0''"
      "JObj [(''recipient'', JObj [(''id'', JStr ''12345'')])]" JNull]
    business_id_prefers_entry_id [of "JObj [(''id'', JStr ''98765'')]" "JStr ''98765''" _ JNull]
    business_id_prefers_entry_id [of "JObj [(''id'', JStr ''0'')]" "JStr ''0''"
      "JObj [(''recipient'', JObj [(''id'', JStr ''12345'')]), (''message'', JObj [(''text'', JStr ''hi'')])]" JNull]
  by (simp add: and_then_def instagram_messaging_def reading_def invoke_def businessId_def)

text \<open>
  \<^bold>\<open>C10.\<close> For a kind-B entry that has both a \<open>messaging\<close> array and a \<open>changes\<close>
  array, the entry is processed as the loop over the \<open>messaging\<close> array alone: every
  handler invocation is for one of its events, and the result is the same for every
  other entry with this \<open>messaging\<close> array and this \<open>id\<close>, so no element of \<open>changes\<close>
  invokes a handler.
\<close>

theorem messaging_shadows_changes:
  assumes "get entry ''messaging'' = Inr (JArr ms)" and "get entry ''changes'' = Inr (JArr cs)"
  shows "instagram_entry entry = forEach_list (instagram_messaging entry) ms
       \<and> (\<forall>c \<in> set (fst (instagram_entry entry)).
            \<exists>bid. \<exists>ev \<in> set ms. c = HandleInstagramMessage bid ev \<or> c = HandleInstagramStatus bid ev)
       \<and> (\<forall>entry'. get entry' ''messaging'' = Inr (JArr ms) \<and> get entry' ''id'' = get entry ''id''
            \<longrightarrow> instagram_entry entry' = instagram_entry entry)"
proof -
  have run: "instagram_entry e = forEach_list (instagram_messaging e) ms"
    if "get e ''messaging'' = Inr (JArr ms)" for e
    using that by (simp add: instagram_entry_def reading_def forEach_def)
  have calls: "\<exists>bid. \<exists>ev \<in> set ms. c = HandleInstagramMessage bid ev \<or> c = HandleInstagramStatus bid ev"
    if "c \<in> set (fst (instagram_entry entry))" for c
  proof -
    from that have "c \<in> set (fst (forEach_list (instagram_messaging entry) ms))"
      by (simp add: run [OF assms(1)])
    then obtain ev where "ev \<in> set ms" and "c \<in> set (fst (instagram_messaging entry ev))"
      by (blast dest: forEach_list_calls)
    then show ?thesis
      by (blast dest: instagram_messaging_calls)
  qed
  have indep: "instagram_entry e = instagram_entry entry"
    if "get e ''messaging'' = Inr (JArr ms)" and "get e ''id'' = get entry ''id''" for e
  proof -
    have "forEach_list (instagram_messaging e) ms = forEach_list (instagram_messaging entry) ms"
      by (rule forEach_list_cong) (rule instagram_messaging_cong [OF that(2)])
    then show ?thesis
      by (simp add: run [OF that(1)] run [OF assms(1)])
  qed
  from run [OF assms(1)] calls indep show ?thesis by blast
qed

theorem messaging_shadows_changes_witness:
  "instagram_entry (JObj [(''id'', JStr ''17841400000000000''),
      (''messaging'', JArr [JObj [(''recipient'', JObj [(''id'', JStr ''12345'')]),
                                  (''message'', JObj [(''text'', JStr ''hi'')])]]),
      (''changes'', JArr [JObj [(''field'', JStr ''messages''),
                                (''value'', JObj [(''message'', JObj [(''text'', JStr ''yo'')])])]])])
   = ([HandleInstagramMessage (JStr ''17841400000000000'')
        (JObj [(''recipient'', JObj [(''id'', JStr ''12345'')]),
               (''message'', JObj [(''text'', JStr ''hi'')])])], None)"
  using messaging_shadows_changes [of
      "JObj [(''id'', JStr ''17841400000000000''),
      (''messaging'', JArr [JObj [(''recipient'', JObj [(''id'', JStr ''12345'')]),
                                  (''message'', JObj [(''text'', JStr ''hi'')])]]),
      (''changes'', JArr [JObj [(''field'', JStr ''messages''),
                                (''value'', JObj [(''message'', JObj [(''text'', JStr ''yo'')])])]])]"
      "[JObj [(''recipient'', JObj [(''id'', JStr ''12345'')]),
                                  (''message'', JObj [(''text'', JStr ''hi'')])]]"
      "[JObj [(''field'', JStr ''messages''),
                                (''value'', JObj [(''message'', JObj [(''text'', JStr ''yo'')])])]]"]
  by (simp add: instagram_messaging_def reading_def invoke_def businessId_def and_then_def
      seq_def nothing_def)


lemma and_then_not_mismatch:
  "m \<noteq> Inl SignatureMismatch \<Longrightarrow> (\<And>v. f v \<noteq> Inl SignatureMismatch)
   \<Longrightarrow> and_then m f \<noteq> Inl SignatureMismatch"
  by (auto simp: and_then_def split: sum.splits)



















end
